theory Spec2Isabelle
  imports Main "HOL-Library.AList"
begin

section \<open>Errors and outcomes\<close>

text \<open>
  Go errors that occur in \<^verbatim>\<open>pod.go\<close> and \<^verbatim>\<open>hints_cmd.go\<close>.
  \<open>AgentError c m\<close> is \<^verbatim>\<open>errors.New(c, m)\<close> of the agent's own errors package (the
  cause is optional), \<open>MultiError\<close> is what \<^verbatim>\<open>multierror.Append\<close> builds,
  \<open>UrlError op url cause\<close> is a \<^verbatim>\<open>*url.Error\<close>, \<open>NetOpError op cause\<close> a
  \<^verbatim>\<open>*net.OpError\<close>. \<open>ErrConnRefused\<close> and \<open>ErrTooManyRequests\<close> are the two
  sentinels of package fleetapi, \<open>ErrKeyNotFound\<close> the one of mapstr.
\<close>

datatype err =
    AgentError "err option" string
  | MultiError "err list"
  | UrlError string string err
  | NetOpError string err
  | ErrConnRefused
  | ErrTooManyRequests
  | ErrKeyNotFound
  | ErrOther string

text \<open>A call either returns or panics; a panic unwinds every caller of this file.\<close>

datatype 'a outcome = Return 'a | Panic string

section \<open>The hints command (\<^verbatim>\<open>hints_cmd.go\<close>)\<close>

record HintsContainer =
  Container_Id :: string
  Container_Image :: string
  Container_Name :: string
  Container_Port :: string
  Container_PortName :: string
  Container_Runtime :: string

record HintsPod =
  Pod_Ip :: string
  Pod_Name :: string
  Pod_Uid :: string

record HintsKubernetes =
  Kubernetes_Container :: HintsContainer
  Kubernetes_Namespace :: string
  Kubernetes_Annotations :: "(string \<times> string) list"
  Kubernetes_Labels :: "(string \<times> string) list"
  Kubernetes_Pod :: HintsPod

record HintsRequest =
  AgentId :: string
  Type :: string
  Kubernetes :: HintsKubernetes

record HintsResponse =
  Action :: string

record Response =
  StatusCode :: int
  Body :: string

text \<open>\<^verbatim>\<open>HintsRequest.Validate\<close>: \<open>None\<close> is the nil error.\<close>

definition HintsRequest_Validate :: "HintsRequest \<Rightarrow> err option" where
  "HintsRequest_Validate h =
     (if length (Type h) = 0
      then Some (MultiError [AgentError None ''missing hints type''])
      else None)"

text \<open>\<^verbatim>\<open>HintsResponse.Validate\<close>.\<close>

definition HintsResponse_Validate :: "HintsResponse \<Rightarrow> err option" where
  "HintsResponse_Validate h =
     (if Action h \<noteq> ''created''
      then Some (MultiError [AgentError None ''hints not created''])
      else None)"

text \<open>
  The second argument of the two \<^verbatim>\<open>errors.As\<close> calls of \<^verbatim>\<open>Execute\<close>: the variables
  \<^verbatim>\<open>et\<close> and \<^verbatim>\<open>netOp\<close> are declared with \<^verbatim>\<open>var\<close> and passed by value, so
  each call receives a nil pointer of the given type.
\<close>

datatype as_target = NilUrlErrorPtr | NilNetOpErrorPtr

text \<open>
  What \<^verbatim>\<open>Execute\<close> takes from outside this file: the sender, \<^verbatim>\<open>json.Marshal\<close> of
  the request, the JSON decoder of the response, \<^verbatim>\<open>client.ExtractError\<close> and
  \<^verbatim>\<open>errors.As\<close> of the agent's errors package. The sender's answer may depend on how
  many requests were sent before (the first argument of \<open>Send\<close>).
\<close>

record transport =
  Send :: "nat \<Rightarrow> string \<Rightarrow> string \<Rightarrow> string \<Rightarrow> err + Response"
  MarshalRequest :: "HintsRequest \<Rightarrow> err + string"
  DecodeResponse :: "string \<Rightarrow> err + HintsResponse"
  ExtractError :: "string \<Rightarrow> err"
  errors_As :: "err \<Rightarrow> as_target \<Rightarrow> bool outcome"

text \<open>\<^verbatim>\<open>HintsCmd\<close>: the client and the agent identifier that \<^verbatim>\<open>info.AgentID()\<close> returns.\<close>

record HintsCmd =
  client :: transport
  info_AgentID :: string

text \<open>One recorded call of \<^verbatim>\<open>client.Send\<close>: method, path, body.\<close>

type_synonym send_call = "string \<times> string \<times> string"

text \<open>
  \<^verbatim>\<open>HintsCmd.Execute\<close>. The argument \<open>sent\<close> is the log of the requests sent so far and
  the second component of the result is the log afterwards. The pair
  \<^verbatim>\<open>(*HintsResponse, error)\<close> is a sum: \<open>Inl\<close> the error (response nil), \<open>Inr\<close>
  the response (error nil).

  After \<^verbatim>\<open>errors.As(err, et)\<close> the variable \<^verbatim>\<open>et\<close> is still nil, whatever the callee
  did with its copy, so \<^verbatim>\<open>et.Err\<close> is a nil dereference.
\<close>

definition Execute ::
  "HintsCmd \<Rightarrow> HintsRequest \<Rightarrow> send_call list \<Rightarrow> (err + HintsResponse) outcome \<times> send_call list" where
  "Execute e r sent =
     (case HintsRequest_Validate r of
        Some err \<Rightarrow> (Return (Inl err), sent)
      | None \<Rightarrow>
         (case MarshalRequest (client e) r of
            Inl err \<Rightarrow> (Return (Inl (AgentError (Some err) ''fail to encode the hints request'')), sent)
          | Inr b \<Rightarrow>
             (let p = ''/api/fleet/agents/'' @ info_AgentID e @ ''/hints'';
                  sent' = sent @ [(''POST'', p, b)]
              in case Send (client e) (length sent) ''POST'' p b of
                   Inl err \<Rightarrow>
                     (case errors_As (client e) err NilUrlErrorPtr of
                        Panic m \<Rightarrow> (Panic m, sent')
                      | Return True \<Rightarrow> (Panic ''invalid memory address or nil pointer dereference'', sent')
                      | Return False \<Rightarrow>
                         (case errors_As (client e) err NilNetOpErrorPtr of
                            Panic m \<Rightarrow> (Panic m, sent')
                          | Return True \<Rightarrow> (Return (Inl ErrConnRefused), sent')
                          | Return False \<Rightarrow> (Return (Inl err), sent')))
                 | Inr resp \<Rightarrow>
                     (if StatusCode resp = 429 then (Return (Inl ErrTooManyRequests), sent')
                      else if StatusCode resp \<noteq> 200
                        then (Return (Inl (ExtractError (client e) (Body resp))), sent')
                      else
                        (case DecodeResponse (client e) (Body resp) of
                           Inl err \<Rightarrow>
                             (Return (Inl (AgentError (Some err) ''fail to decode hints response'')), sent')
                         | Inr hintsResponse \<Rightarrow>
                             (case HintsResponse_Validate hintsResponse of
                                Some err \<Rightarrow> (Return (Inl err), sent')
                              | None \<Rightarrow> (Return (Inr hintsResponse), sent')))))))"

text \<open>
  \<^verbatim>\<open>errors.As\<close> of the Go standard library, to which the agent's errors package
  delegates, on the arguments that \<^verbatim>\<open>Execute\<close> gives it: the error is not nil and the
  target is a nil pointer, on which the library panics.
\<close>

definition std_errors_As :: "err \<Rightarrow> as_target \<Rightarrow> bool outcome" where
  "std_errors_As e t = Panic ''errors: target must be a non-nil pointer''"

section \<open>Field trees (\<^verbatim>\<open>mapstr.M\<close>)\<close>

text \<open>
  A \<^verbatim>\<open>mapstr.M\<close> is a map from strings to values that are scalars or maps again.
  It is kept as an association list with distinct keys, whose order stands for the
  unspecified order in which Go ranges over a map. Maps are references in Go; here every
  operation returns the map it leaves behind.
\<close>

datatype mval = Str string | Tree "(string \<times> mval) list"

type_synonym mapstr = "(string \<times> mval) list"

text \<open>
  \<^verbatim>\<open>strings.IndexRune(key, '.')\<close> followed by \<^verbatim>\<open>key[:idx]\<close> and \<^verbatim>\<open>key[idx+1:]\<close>:
  \<open>None\<close> when the key has no dot.
\<close>

fun cut_dot :: "string \<Rightarrow> (string \<times> string) option" where
  "cut_dot [] = None"
| "cut_dot (c # cs) =
     (if c = CHR ''.'' then Some ([], cs)
      else (case cut_dot cs of None \<Rightarrow> None | Some (k, rest) \<Rightarrow> Some (c # k, rest)))"

lemma cut_dot_shorter: "cut_dot key = Some (k, rest) \<Longrightarrow> length rest < length key"
  by (induction key arbitrary: k) (auto split: if_splits option.splits)

text \<open>
  The functions of the imported packages mapstr and safemapstr that \<^verbatim>\<open>pod.go\<close> calls.
  All walk a dotted key with the package's \<^verbatim>\<open>mapFind\<close>: a key present as it is wins,
  otherwise the part before the first dot selects a sub-map and the walk goes on with
  the rest.

  \<^verbatim>\<open>M.HasKey\<close>: the flag and the error.
\<close>

function HasKey :: "mapstr \<Rightarrow> string \<Rightarrow> bool \<times> err option" where
  "HasKey data key =
     (case map_of data key of
        Some v \<Rightarrow> (True, None)
      | None \<Rightarrow>
         (case cut_dot key of
            None \<Rightarrow> (False, None)
          | Some (k, rest) \<Rightarrow>
             (case map_of data k of
                None \<Rightarrow> (False, Some ErrKeyNotFound)
              | Some (Tree d) \<Rightarrow> HasKey d rest
              | Some (Str x) \<Rightarrow> (False, Some (ErrOther ''expected map but type is string'')))))"
  by pat_completeness auto
termination
  by (relation "measure (\<lambda>(data, key). length key)") (auto dest: cut_dot_shorter)

declare HasKey.simps [simp del]

text \<open>\<^verbatim>\<open>M.GetValue\<close>.\<close>

function GetValue :: "mapstr \<Rightarrow> string \<Rightarrow> err + mval" where
  "GetValue data key =
     (case map_of data key of
        Some v \<Rightarrow> Inr v
      | None \<Rightarrow>
         (case cut_dot key of
            None \<Rightarrow> Inl ErrKeyNotFound
          | Some (k, rest) \<Rightarrow>
             (case map_of data k of
                None \<Rightarrow> Inl ErrKeyNotFound
              | Some (Tree d) \<Rightarrow> GetValue d rest
              | Some (Str x) \<Rightarrow> Inl (ErrOther ''expected map but type is string''))))"
  by pat_completeness auto
termination
  by (relation "measure (\<lambda>(data, key). length key)") (auto dest: cut_dot_shorter)

declare GetValue.simps [simp del]

text \<open>\<^verbatim>\<open>M.Delete\<close>: the map after the call (its error is dropped by the one caller).\<close>

function Delete :: "mapstr \<Rightarrow> string \<Rightarrow> mapstr" where
  "Delete data key =
     (case map_of data key of
        Some v \<Rightarrow> AList.delete key data
      | None \<Rightarrow>
         (case cut_dot key of
            None \<Rightarrow> data
          | Some (k, rest) \<Rightarrow>
             (case map_of data k of
                None \<Rightarrow> data
              | Some (Tree d) \<Rightarrow> AList.update k (Tree (Delete d rest)) data
              | Some (Str x) \<Rightarrow> data)))"
  by pat_completeness auto
termination
  by (relation "measure (\<lambda>(data, key). length key)") (auto dest: cut_dot_shorter)

declare Delete.simps [simp del]

text \<open>
  \<^verbatim>\<open>M.Put\<close>: the map after the call; missing intermediate maps are created, and a
  scalar in the way is an error that leaves the map as it was (every caller drops the
  old value and the error).
\<close>

function Put :: "mapstr \<Rightarrow> string \<Rightarrow> mval \<Rightarrow> mapstr" where
  "Put data key v =
     (case map_of data key of
        Some old \<Rightarrow> AList.update key v data
      | None \<Rightarrow>
         (case cut_dot key of
            None \<Rightarrow> AList.update key v data
          | Some (k, rest) \<Rightarrow>
             (case map_of data k of
                None \<Rightarrow> AList.update k (Tree (Put [] rest v)) data
              | Some (Tree d) \<Rightarrow> AList.update k (Tree (Put d rest v)) data
              | Some (Str x) \<Rightarrow> data)))"
  by pat_completeness auto
termination
  by (relation "measure (\<lambda>(data, key, v). length key)") (auto dest: cut_dot_shorter)

declare Put.simps [simp del]

text \<open>
  \<^verbatim>\<open>safemapstr.Put\<close>: dotted keys become nested maps, and a value that is in the way
  of a map (or a map in the way of a value) is kept under the alternative key.
\<close>

definition alternativeKey :: string where
  "alternativeKey = ''value''"

function safemapstr_Put :: "mapstr \<Rightarrow> string \<Rightarrow> mval \<Rightarrow> mapstr" where
  "safemapstr_Put data key v =
     (case map_of data key of
        Some (Tree oldMap) \<Rightarrow> AList.update key (Tree (AList.update alternativeKey v oldMap)) data
      | Some (Str x) \<Rightarrow> AList.update key v data
      | None \<Rightarrow>
         (case cut_dot key of
            None \<Rightarrow> AList.update key v data
          | Some (k, rest) \<Rightarrow>
             (case map_of data k of
                None \<Rightarrow> AList.update k (Tree (safemapstr_Put [] rest v)) data
              | Some (Tree d) \<Rightarrow> AList.update k (Tree (safemapstr_Put d rest v)) data
              | Some (Str x) \<Rightarrow>
                  AList.update k (Tree (safemapstr_Put [(alternativeKey, Str x)] rest v)) data)))"
  by pat_completeness auto
termination
  by (relation "measure (\<lambda>(data, key, v). length key)") (auto dest: cut_dot_shorter)

declare safemapstr_Put.simps [simp del]

text \<open>\<^verbatim>\<open>fmt.Sprintf("%v", n)\<close> for an integer: decimal digits, with a sign when negative.\<close>

fun decimal :: "nat \<Rightarrow> string" where
  "decimal n =
     (if n < 10 then [''0123456789'' ! n]
      else decimal (n div 10) @ [''0123456789'' ! (n mod 10)])"

declare decimal.simps [simp del]

definition Sprintf_v :: "int \<Rightarrow> string" where
  "Sprintf_v i = (if i < 0 then CHR ''-'' # decimal (nat (- i)) else decimal (nat i))"

section \<open>The pod eventer (\<^verbatim>\<open>pod.go\<close>)\<close>

subsection \<open>Kubernetes objects and collaborators\<close>

record ContainerPort =
  Port_Name :: string
  Port_ContainerPort :: int

record Container =
  Name :: string
  Image :: string
  Ports :: "ContainerPort list"

text \<open>\<^verbatim>\<open>kubernetes.ContainerInPod\<close>: a container spec with its runtime identifier.\<close>

record ContainerInPod =
  ID :: string
  Runtime :: string
  Spec :: Container

text \<open>
  The fields of \<^verbatim>\<open>kubernetes.Pod\<close> that the eventer reads. The annotations are a Go
  map; the list gives the order in which one \<^verbatim>\<open>range\<close> visits it.
\<close>

record Pod =
  UID :: string
  Annotations :: "(string \<times> string) list"
  Spec_Containers :: "Container list"
  Spec_InitContainers :: "Container list"

text \<open>A watcher, as far as \<^verbatim>\<open>Start\<close> sees it: its name and what its \<^verbatim>\<open>Start()\<close> returns.\<close>

record Watcher =
  Watcher_name :: string
  Watcher_Start :: "err option"

text \<open>
  \<^verbatim>\<open>metadata.MetaGen\<close>: \<^verbatim>\<open>Generate(pod, WithFields(k, v)...)\<close>, the field options given
  as pairs.
\<close>

type_synonym MetaGen = "Pod \<Rightarrow> (string \<times> string) list \<Rightarrow> mapstr"

text \<open>
  Functions and constants of other packages: \<^verbatim>\<open>kubernetes.GetContainersInPod\<close>,
  \<^verbatim>\<open>kubernetes.PodNamespaceAnnotations\<close>, \<^verbatim>\<open>info.NewAgentInfo\<close> (the agent identifier
  or an error), \<^verbatim>\<open>json.Marshal\<close> of a field tree, \<^verbatim>\<open>json.Unmarshal\<close> into a
  \<^verbatim>\<open>HintsRequest\<close>, and the two priorities.
\<close>

record externals =
  GetContainersInPod :: "Pod \<Rightarrow> ContainerInPod list"
  PodNamespaceAnnotations :: "Pod \<Rightarrow> Watcher option \<Rightarrow> mapstr"
  NewAgentInfo :: "err + string"
  json_Marshal :: "mapstr \<Rightarrow> err + string"
  json_Unmarshal :: "string \<Rightarrow> err + HintsRequest"
  PodPriority :: int
  ContainerPriority :: int

text \<open>The eventer. A watcher that was not constructed is nil, here \<open>None\<close>.\<close>

record pod =
  cleanupTimeout :: int
  scope :: string
  metagen :: MetaGen
  watcher :: Watcher
  nodeWatcher :: "Watcher option"
  namespaceWatcher :: "Watcher option"
  fclient :: transport

record providerData =
  uid :: string
  mapping :: "mapstr option"
  processors :: "mapstr list"

text \<open>Calls of the registry (\<^verbatim>\<open>composable.DynamicProviderComm\<close>).\<close>

datatype registry_call =
    AddOrUpdate string int mapstr "mapstr list"
  | Remove string

text \<open>
  Everything the eventer does to the outside: the calls of the registry in order, the
  calls of \<^verbatim>\<open>postMappingstoFleet\<close> (mapping and type), the requests sent, the pending
  \<^verbatim>\<open>time.AfterFunc\<close> timers (duration and the pod their callback holds; each callback is
  \<^verbatim>\<open>emitStopped\<close> of that pod) and the watchers started.
\<close>

record world =
  registry :: "registry_call list"
  posted :: "(mapstr \<times> string) list"
  sent :: "send_call list"
  timers :: "(int \<times> Pod) list"
  started :: "string list"

subsection \<open>Start\<close>

definition Watcher_start :: "Watcher \<Rightarrow> world \<Rightarrow> err option \<times> world" where
  "Watcher_start wt w = (Watcher_Start wt, w\<lparr>started := started w @ [Watcher_name wt]\<rparr>)"

definition Start :: "pod \<Rightarrow> world \<Rightarrow> err option \<times> world" where
  "Start p w =
     (case (case nodeWatcher p of None \<Rightarrow> (None, w) | Some wt \<Rightarrow> Watcher_start wt w) of
        (Some err, w1) \<Rightarrow> (Some err, w1)
      | (None, w1) \<Rightarrow>
         (case (case namespaceWatcher p of None \<Rightarrow> (None, w1) | Some wt \<Rightarrow> Watcher_start wt w1) of
            (Some err, w2) \<Rightarrow> (Some err, w2)
          | (None, w2) \<Rightarrow> Watcher_start (watcher p) w2))"

text \<open>The watchers that exist, in the order in which \<open>Start\<close> visits them.\<close>

definition present_watchers :: "pod \<Rightarrow> Watcher list" where
  "present_watchers p =
     (case nodeWatcher p of None \<Rightarrow> [] | Some wt \<Rightarrow> [wt])
       @ (case namespaceWatcher p of None \<Rightarrow> [] | Some wt \<Rightarrow> [wt])
       @ [watcher p]"

definition starts :: "Watcher \<Rightarrow> bool" where
  "starts wt = (Watcher_Start wt = None)"

subsection \<open>Deleting\<close>

definition eventID :: "Pod \<Rightarrow> string \<Rightarrow> string" where
  "eventID pod name = UID pod @ ''.'' @ name"

fun remove_each :: "Pod \<Rightarrow> Container list \<Rightarrow> world \<Rightarrow> world" where
  "remove_each pod [] w = w"
| "remove_each pod (c # cs) w =
     remove_each pod cs (w\<lparr>registry := registry w @ [Remove (eventID pod (Name c))]\<rparr>)"

definition emitStopped :: "pod \<Rightarrow> Pod \<Rightarrow> world \<Rightarrow> world" where
  "emitStopped p pod w =
     remove_each pod (Spec_InitContainers pod)
       (remove_each pod (Spec_Containers pod)
          (w\<lparr>registry := registry w @ [Remove (UID pod)]\<rparr>))"

text \<open>\<^verbatim>\<open>OnDelete\<close>: the handler only arms the timer.\<close>

definition OnDelete :: "pod \<Rightarrow> Pod \<Rightarrow> world \<Rightarrow> world" where
  "OnDelete p pod w = w\<lparr>timers := timers w @ [(cleanupTimeout p, pod)]\<rparr>"

text \<open>The \<open>i\<close>-th pending timer expires: it is gone, and its callback runs.\<close>

definition fire :: "pod \<Rightarrow> nat \<Rightarrow> world \<Rightarrow> world" where
  "fire p i w =
     (if i < length (timers w)
      then emitStopped p (snd (timers w ! i))
             (w\<lparr>timers := take i (timers w) @ drop (Suc i) (timers w)\<rparr>)
      else w)"

subsection \<open>Emitting\<close>

text \<open>The loop \<^verbatim>\<open>for k, v := range annotations { safemapstr.Put(annotations, k, v) }\<close>.\<close>

definition put_annotations :: "Pod \<Rightarrow> mapstr" where
  "put_annotations pod = foldl (\<lambda>annotations (k, v). safemapstr_Put annotations k (Str v)) [] (Annotations pod)"

text \<open>One \<^verbatim>\<open>add_fields\<close> processor.\<close>

definition add_fields :: "mval \<Rightarrow> string \<Rightarrow> mapstr" where
  "add_fields metaMap field = [(''add_fields'', Tree [(''fields'', metaMap), (''target'', Str field)])]"

text \<open>
  \<^verbatim>\<open>generatePodData\<close>. The empty \<^verbatim>\<open>providerData{}\<close> has a nil map, here \<open>None\<close>.
  The type assertion \<^verbatim>\<open>kubemetaMap.(mapstr.M)\<close> panics on a value that is no map.
\<close>

definition generatePodData :: "Pod \<Rightarrow> MetaGen \<Rightarrow> mapstr \<Rightarrow> providerData outcome" where
  "generatePodData pod kubeMetaGen namespaceAnnotations =
     (let meta = kubeMetaGen pod []
      in case GetValue meta ''kubernetes'' of
           Inl err \<Rightarrow> Return \<lparr>uid = [], mapping = None, processors = []\<rparr>
         | Inr (Str x) \<Rightarrow> Panic ''interface conversion: interface {} is string, not mapstr.M''
         | Inr (Tree kubemetaMap) \<Rightarrow>
            (let k8sMapping = kubemetaMap;
                 k8sMapping =
                   (if length namespaceAnnotations \<noteq> 0
                    then AList.update ''namespace_annotations'' (Tree namespaceAnnotations) k8sMapping
                    else k8sMapping);
                 k8sMapping = AList.update ''annotations'' (Tree (put_annotations pod)) k8sMapping
             in Return \<lparr>uid = UID pod, mapping = Some k8sMapping,
                  processors = map (\<lambda>(field, metaMap). add_fields metaMap field) meta\<rparr>))"

definition checkForHints :: "mapstr \<Rightarrow> bool" where
  "checkForHints annotations = fst (HasKey annotations ''elastic-co-hints/package'')"

text \<open>A Go result pair \<^verbatim>\<open>(resp, err)\<close> of which exactly one is nil.\<close>

fun go_pair :: "err + 'a \<Rightarrow> 'a option \<times> err option" where
  "go_pair (Inl err) = (None, Some err)"
| "go_pair (Inr resp) = (Some resp, None)"

text \<open>
  \<^verbatim>\<open>postMappingstoFleet\<close>. The call is recorded on entry. The last statement is
  \<^verbatim>\<open>return resp, nil\<close>: the error of \<^verbatim>\<open>Execute\<close> is assigned and not returned.
\<close>

definition postMappingstoFleet ::
  "externals \<Rightarrow> mapstr \<Rightarrow> transport \<Rightarrow> string \<Rightarrow> world
     \<Rightarrow> (HintsResponse option \<times> err option) outcome \<times> world" where
  "postMappingstoFleet x k8sMapping cl t w =
     (let w0 = w\<lparr>posted := posted w @ [(k8sMapping, t)]\<rparr>
      in case NewAgentInfo x of
           Inl err \<Rightarrow> (Return (None, Some err), w0)
         | Inr agentInfo \<Rightarrow>
            (let kubMap = Put [] ''kubernetes'' (Tree k8sMapping);
                 cmd = \<lparr>client = cl, info_AgentID = agentInfo\<rparr>
             in case json_Marshal x kubMap of
                  Inl err \<Rightarrow> (Return (None, Some err), w0)
                | Inr jsonbody \<Rightarrow>
                   (case json_Unmarshal x jsonbody of
                      Inl err \<Rightarrow> (Return (None, Some err), w0)
                    | Inr hintsRequest \<Rightarrow>
                       (case Execute cmd (hintsRequest\<lparr>Type := t\<rparr>) (sent w0) of
                          (Panic m, sent') \<Rightarrow> (Panic m, w0\<lparr>sent := sent'\<rparr>)
                        | (Return r, sent') \<Rightarrow>
                           (let (resp, err) = go_pair r
                            in (Return (resp, None), w0\<lparr>sent := sent'\<rparr>))))))"

text \<open>The ECS container fields and the processors of one container (lines 325 to 351).\<close>

definition container_processors :: "mapstr \<Rightarrow> ContainerInPod \<Rightarrow> mapstr list" where
  "container_processors meta c =
     (let cmeta = [(''id'', Str (ID c)), (''runtime'', Str (Runtime c)),
                   (''image'', Tree [(''name'', Str (Image (Spec c)))])]
      in add_fields (Tree cmeta) ''container''
           # map (\<lambda>(field, metaMap). add_fields metaMap field) meta)"

text \<open>The loop over the declared ports: each port puts its number and name.\<close>

fun put_ports :: "ContainerPort list \<Rightarrow> mapstr \<Rightarrow> mapstr" where
  "put_ports [] containerMeta = containerMeta"
| "put_ports (port # ports) containerMeta =
     put_ports ports
       (Put (Put containerMeta ''port'' (Str (Sprintf_v (Port_ContainerPort port))))
          ''port_name'' (Str (Port_Name port)))"

text \<open>
  The mapping of one container (lines 314 to 320 and 355 to 369). In the source the
  entry \<^verbatim>\<open>k8sMapping["container"]\<close> is assigned inside the port loop; it refers to the
  map \<^verbatim>\<open>containerMeta\<close>, so it holds what the whole loop has put.
\<close>

definition container_k8sMapping :: "mapstr \<Rightarrow> mapstr \<Rightarrow> mapstr \<Rightarrow> ContainerInPod \<Rightarrow> mapstr" where
  "container_k8sMapping kubemetaMap namespaceAnnotations annotations c =
     (let k8sMapping = kubemetaMap;
          k8sMapping =
            (if length namespaceAnnotations \<noteq> 0
             then AList.update ''namespace_annotations'' (Tree namespaceAnnotations) k8sMapping
             else k8sMapping);
          k8sMapping = AList.update ''annotations'' (Tree annotations) k8sMapping;
          containerMeta = [(''id'', Str (ID c)), (''name'', Str (Name (Spec c))),
                           (''image'', Str (Image (Spec c))), (''runtime'', Str (Runtime c))]
      in if length (Ports (Spec c)) > 0
         then AList.update ''container'' (Tree (put_ports (Ports (Spec c)) containerMeta)) k8sMapping
         else AList.update ''container'' (Tree containerMeta) k8sMapping)"

text \<open>One round of the loop of \<^verbatim>\<open>generateContainerData\<close> (lines 295 to 376).\<close>

definition generateContainerData_body ::
  "externals \<Rightarrow> Pod \<Rightarrow> MetaGen \<Rightarrow> mapstr \<Rightarrow> transport \<Rightarrow> mapstr \<Rightarrow> ContainerInPod \<Rightarrow> world
     \<Rightarrow> unit outcome \<times> world" where
  "generateContainerData_body x pod kubeMetaGen namespaceAnnotations cl annotations c w =
     (if ID c = [] then (Return (), w)
      else
        (let meta = kubeMetaGen pod [(''container.name'', Name (Spec c))]
         in case GetValue meta ''kubernetes'' of
              Inl err \<Rightarrow> (Return (), w)
            | Inr (Str s) \<Rightarrow> (Panic ''interface conversion: interface {} is string, not mapstr.M'', w)
            | Inr (Tree kubemetaMap) \<Rightarrow>
               (let k8sMapping = container_k8sMapping kubemetaMap namespaceAnnotations annotations c;
                    emitHints = checkForHints annotations;
                    procs = container_processors meta c
                in if emitHints
                   then (case postMappingstoFleet x k8sMapping cl ''Start'' w of
                           (Panic m, w') \<Rightarrow> (Panic m, w')
                         | (Return r, w') \<Rightarrow> (Return (), w'))
                   else (Return (),
                         w\<lparr>registry := registry w @
                             [AddOrUpdate (eventID pod (Name (Spec c))) (ContainerPriority x)
                                k8sMapping procs]\<rparr>))))"

fun generateContainerData_loop ::
  "externals \<Rightarrow> Pod \<Rightarrow> MetaGen \<Rightarrow> mapstr \<Rightarrow> transport \<Rightarrow> mapstr \<Rightarrow> ContainerInPod list \<Rightarrow> world
     \<Rightarrow> unit outcome \<times> world" where
  "generateContainerData_loop x pod kubeMetaGen namespaceAnnotations cl annotations [] w = (Return (), w)"
| "generateContainerData_loop x pod kubeMetaGen namespaceAnnotations cl annotations (c # cs) w =
     (case generateContainerData_body x pod kubeMetaGen namespaceAnnotations cl annotations c w of
        (Panic m, w') \<Rightarrow> (Panic m, w')
      | (Return u, w') \<Rightarrow>
          generateContainerData_loop x pod kubeMetaGen namespaceAnnotations cl annotations cs w')"

text \<open>
  \<^verbatim>\<open>generateContainerData\<close>; the registry \<^verbatim>\<open>comm\<close> is part of the world. The annotations
  are built once, before the loop, and no round changes them.
\<close>

definition generateContainerData ::
  "externals \<Rightarrow> Pod \<Rightarrow> MetaGen \<Rightarrow> mapstr \<Rightarrow> transport \<Rightarrow> world \<Rightarrow> unit outcome \<times> world" where
  "generateContainerData x pod kubeMetaGen namespaceAnnotations cl w =
     (let containers = GetContainersInPod x pod;
          annotations = Delete (put_annotations pod) ''kubectl''
      in generateContainerData_loop x pod kubeMetaGen namespaceAnnotations cl annotations containers w)"

definition emitContainers :: "externals \<Rightarrow> pod \<Rightarrow> Pod \<Rightarrow> mapstr \<Rightarrow> world \<Rightarrow> unit outcome \<times> world" where
  "emitContainers x p pod namespaceAnnotations w =
     generateContainerData x pod (metagen p) namespaceAnnotations (fclient p) w"

text \<open>
  \<^verbatim>\<open>emitRunning\<close>. The statement \<^verbatim>\<open>data.mapping["scope"] = p.scope\<close> writes to the map
  that \<^verbatim>\<open>generatePodData\<close> returned; writing to a nil map panics.
\<close>

definition emitRunning :: "externals \<Rightarrow> pod \<Rightarrow> Pod \<Rightarrow> world \<Rightarrow> unit outcome \<times> world" where
  "emitRunning x p pod w =
     (let namespaceAnnotations = PodNamespaceAnnotations x pod (namespaceWatcher p)
      in case generatePodData pod (metagen p) namespaceAnnotations of
           Panic m \<Rightarrow> (Panic m, w)
         | Return data \<Rightarrow>
            (case mapping data of
               None \<Rightarrow> (Panic ''assignment to entry in nil map'', w)
             | Some m \<Rightarrow>
                (let m' = AList.update ''scope'' (Str (scope p)) m;
                     w1 = w\<lparr>registry := registry w @
                            [AddOrUpdate (uid data) (PodPriority x) m' (processors data)]\<rparr>
                 in emitContainers x p pod namespaceAnnotations w1)))"

definition OnAdd :: "externals \<Rightarrow> pod \<Rightarrow> Pod \<Rightarrow> world \<Rightarrow> unit outcome \<times> world" where
  "OnAdd x p obj w = emitRunning x p obj w"

definition unlockedUpdate :: "externals \<Rightarrow> pod \<Rightarrow> Pod \<Rightarrow> world \<Rightarrow> unit outcome \<times> world" where
  "unlockedUpdate x p obj w = emitRunning x p obj w"

definition OnUpdate :: "externals \<Rightarrow> pod \<Rightarrow> Pod \<Rightarrow> world \<Rightarrow> unit outcome \<times> world" where
  "OnUpdate x p obj w = unlockedUpdate x p obj w"

subsection \<open>Notions used in the statements\<close>

text \<open>The part of an annotation key before its first dot (the whole key if it has none).\<close>

definition key_head :: "string \<Rightarrow> string" where
  "key_head key = takeWhile (\<lambda>c. c \<noteq> CHR ''.'') key"

text \<open>The gate as \<open>generateContainerData\<close> evaluates it for a pod.\<close>

definition hinted :: "Pod \<Rightarrow> bool" where
  "hinted pod = checkForHints (Delete (put_annotations pod) ''kubectl'')"

text \<open>
  The \<open>kubernetes\<close> tree that the generator yields for a container, if it yields one; a
  container is emitted when it has a runtime identifier and such a tree.
\<close>

definition kubernetes_of :: "MetaGen \<Rightarrow> Pod \<Rightarrow> ContainerInPod \<Rightarrow> mapstr option" where
  "kubernetes_of kubeMetaGen pod c =
     (case GetValue (kubeMetaGen pod [(''container.name'', Name (Spec c))]) ''kubernetes'' of
        Inr (Tree t) \<Rightarrow> Some t
      | Inr (Str s) \<Rightarrow> None
      | Inl err \<Rightarrow> None)"

definition emitted :: "MetaGen \<Rightarrow> Pod \<Rightarrow> ContainerInPod \<Rightarrow> bool" where
  "emitted kubeMetaGen pod c = (ID c \<noteq> [] \<and> kubernetes_of kubeMetaGen pod c \<noteq> None)"

text \<open>The mapping and the registry call that \<open>generateContainerData\<close> builds for a container.\<close>

definition mapping_of :: "MetaGen \<Rightarrow> Pod \<Rightarrow> mapstr \<Rightarrow> ContainerInPod \<Rightarrow> mapstr" where
  "mapping_of kubeMetaGen pod namespaceAnnotations c =
     container_k8sMapping (case kubernetes_of kubeMetaGen pod c of Some t \<Rightarrow> t | None \<Rightarrow> [])
       namespaceAnnotations (Delete (put_annotations pod) ''kubectl'') c"

definition registry_call_of :: "externals \<Rightarrow> MetaGen \<Rightarrow> Pod \<Rightarrow> mapstr \<Rightarrow> ContainerInPod \<Rightarrow> registry_call" where
  "registry_call_of x kubeMetaGen pod namespaceAnnotations c =
     AddOrUpdate (UID pod @ ''.'' @ Name (Spec c)) (ContainerPriority x)
       (mapping_of kubeMetaGen pod namespaceAnnotations c)
       (container_processors (kubeMetaGen pod [(''container.name'', Name (Spec c))]) c)"

text \<open>The identity that a registry call names.\<close>

fun call_id :: "registry_call \<Rightarrow> string" where
  "call_id (AddOrUpdate i priority vars procs) = i"
| "call_id (Remove i) = i"

section \<open>Example inputs\<close>

text \<open>
  A client that answers every request with the given result. Its JSON codec is a toy:
  a request is encoded as its type, and a response body is the bare action word.
\<close>

definition example_transport :: "err + Response \<Rightarrow> transport" where
  "example_transport answer =
     \<lparr>Send = (\<lambda>n method path body. answer),
      MarshalRequest = (\<lambda>r. Inr (Type r)),
      DecodeResponse = (\<lambda>b. if b = [] then Inl (ErrOther ''EOF'') else Inr \<lparr>Action = b\<rparr>),
      ExtractError = (\<lambda>b. ErrOther (''fleet-server returned an error: '' @ b)),
      errors_As = std_errors_As\<rparr>"

definition example_request :: HintsRequest where
  "example_request =
     \<lparr>AgentId = [], Type = ''Start'',
      Kubernetes = \<lparr>Kubernetes_Container =
          \<lparr>Container_Id = ''c1'', Container_Image = ''redis:7'', Container_Name = ''app'',
           Container_Port = ''6379'', Container_PortName = ''redis'', Container_Runtime = ''containerd''\<rparr>,
        Kubernetes_Namespace = ''default'', Kubernetes_Annotations = [], Kubernetes_Labels = [],
        Kubernetes_Pod = \<lparr>Pod_Ip = ''10.0.0.7'', Pod_Name = ''redis-0'', Pod_Uid = ''abc''\<rparr>\<rparr>\<rparr>"

definition example_cmd :: "err + Response \<Rightarrow> HintsCmd" where
  "example_cmd answer = \<lparr>client = example_transport answer, info_AgentID = ''agent-1''\<rparr>"

text \<open>
  The pod of the specification's end-to-end example: UID "abc", a regular container
  "app" and an init container "init1".
\<close>

definition example_pod :: "(string \<times> string) list \<Rightarrow> Pod" where
  "example_pod annotations =
     \<lparr>UID = ''abc'', Annotations = annotations,
      Spec_Containers =
        [\<lparr>Name = ''app'', Image = ''redis:7'',
          Ports = [\<lparr>Port_Name = ''metrics'', Port_ContainerPort = 9121\<rparr>,
                   \<lparr>Port_Name = ''redis'', Port_ContainerPort = 6379\<rparr>]\<rparr>],
      Spec_InitContainers = [\<lparr>Name = ''init1'', Image = ''busybox'', Ports = []\<rparr>]\<rparr>"

definition running :: "Container \<Rightarrow> ContainerInPod" where
  "running c = \<lparr>ID = ''id-'' @ Name c, Runtime = ''containerd'', Spec = c\<rparr>"

definition waiting :: "Container \<Rightarrow> ContainerInPod" where
  "waiting c = \<lparr>ID = [], Runtime = [], Spec = c\<rparr>"

text \<open>A generator that yields a \<open>kubernetes\<close> tree, and one whose result has none.\<close>

definition example_metagen :: MetaGen where
  "example_metagen pod opts = [(''kubernetes'', Tree [(''pod'', Tree [(''uid'', Str (UID pod))])])]"

definition failing_metagen :: MetaGen where
  "failing_metagen pod opts = [(''orchestrator'', Tree [])]"

text \<open>
  The collaborators of the examples: the containers of a pod as given, and the result of
  decoding the marshalled mapping into a \<^verbatim>\<open>HintsRequest\<close> as given.
\<close>

definition example_externals :: "(Pod \<Rightarrow> ContainerInPod list) \<Rightarrow> err + HintsRequest \<Rightarrow> externals" where
  "example_externals containers decoded =
     \<lparr>GetContainersInPod = containers,
      PodNamespaceAnnotations = (\<lambda>pod wt. []),
      NewAgentInfo = Inr ''agent-1'',
      json_Marshal = (\<lambda>m. Inr ''{}''),
      json_Unmarshal = (\<lambda>b. decoded),
      PodPriority = 1,
      ContainerPriority = 2\<rparr>"

definition all_running :: "Pod \<Rightarrow> ContainerInPod list" where
  "all_running pod = map running (Spec_Containers pod @ Spec_InitContainers pod)"

definition example_eventer :: "Watcher option \<Rightarrow> Watcher option \<Rightarrow> MetaGen \<Rightarrow> err + Response \<Rightarrow> pod" where
  "example_eventer node namespace gen answer =
     \<lparr>cleanupTimeout = 60000000000, scope = ''node'', metagen = gen,
      watcher = \<lparr>Watcher_name = ''agent-pod'', Watcher_Start = None\<rparr>,
      nodeWatcher = node, namespaceWatcher = namespace,
      fclient = example_transport answer\<rparr>"

definition world0 :: world where
  "world0 = \<lparr>registry = [], posted = [], sent = [], timers = [], started = []\<rparr>"

text \<open>A pod whose regular containers run while its init containers have no identifier yet.\<close>

definition init_waiting :: "Pod \<Rightarrow> ContainerInPod list" where
  "init_waiting pod = map running (Spec_Containers pod) @ map waiting (Spec_InitContainers pod)"

definition example_app :: Container where
  "example_app = hd (Spec_Containers (example_pod []))"

definition example_init1 :: Container where
  "example_init1 = hd (Spec_InitContainers (example_pod []))"

section \<open>Request validation\<close>

text \<open>
  C8. A request whose type is empty makes \<open>Execute\<close> return the validation error
  (a multierror holding "missing hints type") with the log of sent requests unchanged,
  so the sender was not called; a request validates exactly when its type is non-empty.
\<close>

theorem C8_empty_type_rejected_before_send:
  "(Type r = [] \<longrightarrow>
      Execute e r log = (Return (Inl (MultiError [AgentError None ''missing hints type''])), log))
   \<and> (HintsRequest_Validate r = None) = (Type r \<noteq> [])"
  by (simp add: Execute_def HintsRequest_Validate_def)

theorem C8_empty_type_rejected_before_send_witness:
  "Type (example_request\<lparr>Type := []\<rparr>) = []
   \<and> Execute (example_cmd (Inr \<lparr>StatusCode = 200, Body = ''created''\<rparr>)) (example_request\<lparr>Type := []\<rparr>) []
       = (Return (Inl (MultiError [AgentError None ''missing hints type''])), [])
   \<and> HintsRequest_Validate example_request = None \<and> Type example_request \<noteq> []"
  using C8_empty_type_rejected_before_send
          [of "example_request\<lparr>Type := []\<rparr>" "example_cmd (Inr \<lparr>StatusCode = 200, Body = ''created''\<rparr>)" "[]"]
        C8_empty_type_rejected_before_send
          [of "example_request" "example_cmd (Inr \<lparr>StatusCode = 200, Body = ''created''\<rparr>)" "[]"]
  by (simp add: example_request_def)

section \<open>Classifying the response\<close>

lemma example_request_valid: "HintsRequest_Validate example_request = None"
  by (simp add: HintsRequest_Validate_def example_request_def)

text \<open>
  C7. When the request is valid and encoded and the sender returns a response, the
  result of \<open>Execute\<close> is decided by the status code: 429 gives the rate-limited
  sentinel, any other status than 200 gives the error that \<open>ExtractError\<close> reads from
  the body, and 200 decodes the body; a decoded response is returned exactly when its
  action is "created", and any other action is the validation error.
\<close>

theorem C7_status_then_action:
  assumes "HintsRequest_Validate r = None"
    and "MarshalRequest (client e) r = Inr b"
    and "Send (client e) (length log) ''POST'' (''/api/fleet/agents/'' @ info_AgentID e @ ''/hints'') b = Inr resp"
  shows "fst (Execute e r log) =
     (if StatusCode resp = 429 then Return (Inl ErrTooManyRequests)
      else if StatusCode resp \<noteq> 200 then Return (Inl (ExtractError (client e) (Body resp)))
      else (case DecodeResponse (client e) (Body resp) of
              Inl err \<Rightarrow> Return (Inl (AgentError (Some err) ''fail to decode hints response''))
            | Inr h \<Rightarrow>
                if Action h = ''created'' then Return (Inr h)
                else Return (Inl (MultiError [AgentError None ''hints not created'']))))"
  using assms
  by (simp add: Execute_def HintsResponse_Validate_def Let_def split: sum.splits)

theorem C7_status_then_action_witness:
  "fst (Execute (example_cmd (Inr \<lparr>StatusCode = 429, Body = []\<rparr>)) example_request [])
       = Return (Inl ErrTooManyRequests)
   \<and> fst (Execute (example_cmd (Inr \<lparr>StatusCode = 503, Body = ''busy''\<rparr>)) example_request [])
       = Return (Inl (ErrOther ''fleet-server returned an error: busy''))
   \<and> fst (Execute (example_cmd (Inr \<lparr>StatusCode = 200, Body = ''created''\<rparr>)) example_request [])
       = Return (Inr \<lparr>Action = ''created''\<rparr>)
   \<and> fst (Execute (example_cmd (Inr \<lparr>StatusCode = 200, Body = ''exists''\<rparr>)) example_request [])
       = Return (Inl (MultiError [AgentError None ''hints not created'']))"
proof -
  have m: "MarshalRequest (client (example_cmd a)) example_request = Inr ''Start''" for a
    by (simp add: example_cmd_def example_transport_def example_request_def)
  have s: "Send (client (example_cmd a)) (length ([] :: send_call list)) ''POST''
             (''/api/fleet/agents/'' @ info_AgentID (example_cmd a) @ ''/hints'') ''Start'' = a" for a
    by (simp add: example_cmd_def example_transport_def)
  show ?thesis
    using C7_status_then_action [OF example_request_valid m s [of "Inr \<lparr>StatusCode = 429, Body = []\<rparr>"]]
          C7_status_then_action [OF example_request_valid m s [of "Inr \<lparr>StatusCode = 503, Body = ''busy''\<rparr>"]]
          C7_status_then_action [OF example_request_valid m s [of "Inr \<lparr>StatusCode = 200, Body = ''created''\<rparr>"]]
          C7_status_then_action [OF example_request_valid m s [of "Inr \<lparr>StatusCode = 200, Body = ''exists''\<rparr>"]]
    by (simp add: example_cmd_def example_transport_def)
qed

section \<open>Starting the watchers\<close>

text \<open>
  C4, as the code has it. \<open>Start\<close> visits the watchers that exist in the order node,
  namespace, pod and returns the error of the first one whose start fails, whichever it
  is; the watchers after it are not started. It returns no error exactly when every
  watcher that exists starts. A watcher that was never constructed is not visited.
\<close>

theorem C4_start_stops_at_first_failure:
  "fst (Start p w) =
     (case dropWhile starts (present_watchers p) of [] \<Rightarrow> None | wt # rest \<Rightarrow> Watcher_Start wt)
   \<and> started (snd (Start p w)) =
       started w @ map Watcher_name
         (takeWhile starts (present_watchers p) @ take 1 (dropWhile starts (present_watchers p)))"
  by (cases "nodeWatcher p"; cases "namespaceWatcher p")
     (auto simp: Start_def present_watchers_def Watcher_start_def starts_def split: option.splits prod.splits)

text \<open>
  C4 as stated fails: with a node watcher that exists and fails to start and a pod watcher
  that would start, \<open>Start\<close> returns the node watcher's error and the pod watcher is
  never started.
\<close>

theorem C4_counterexample:
  "Watcher_Start (watcher (example_eventer (Some \<lparr>Watcher_name = ''agent-node'', Watcher_Start = Some (ErrOther ''connection refused'')\<rparr>) None example_metagen (Inl ErrConnRefused))) = None
   \<and> Start (example_eventer (Some \<lparr>Watcher_name = ''agent-node'', Watcher_Start = Some (ErrOther ''connection refused'')\<rparr>) None example_metagen (Inl ErrConnRefused)) world0
      = (Some (ErrOther ''connection refused''), world0\<lparr>started := [''agent-node'']\<rparr>)"
  by (simp add: Start_def example_eventer_def Watcher_start_def world0_def)

section \<open>Deleting a pod\<close>

lemma remove_each_registry:
  "registry (remove_each pod cs w) = registry w @ map (\<lambda>c. Remove (eventID pod (Name c))) cs"
  by (induction cs arbitrary: w) auto

lemma remove_each_timers: "timers (remove_each pod cs w) = timers w"
  by (induction cs arbitrary: w) auto

text \<open>
  C2, as the code has it. The delete handler calls nothing on the registry; it arms one
  timer with the cleanup timeout. When that timer expires, the pod identity and then
  the identity of every container and every init container are removed, once each, and
  no timer of this delete is left.
\<close>

theorem C2_delete_is_deferred_once:
  "registry (OnDelete p pod w) = registry w
   \<and> timers (OnDelete p pod w) = timers w @ [(cleanupTimeout p, pod)]
   \<and> registry (fire p (length (timers w)) (OnDelete p pod w)) =
       registry w @ Remove (UID pod)
         # map (\<lambda>c. Remove (UID pod @ ''.'' @ Name c)) (Spec_Containers pod @ Spec_InitContainers pod)
   \<and> timers (fire p (length (timers w)) (OnDelete p pod w)) = timers w"
  by (simp add: OnDelete_def fire_def emitStopped_def remove_each_registry remove_each_timers eventID_def)

text \<open>
  C2 as stated fails: after the handler has run for the example pod the registry has
  received no call, and after the one timer has expired each identity has been removed
  once and nothing is pending that could remove them again.
\<close>

theorem C2_counterexample:
  "registry (OnDelete (example_eventer None None example_metagen (Inl ErrConnRefused)) (example_pod []) world0) = []
   \<and> registry (fire (example_eventer None None example_metagen (Inl ErrConnRefused)) 0
        (OnDelete (example_eventer None None example_metagen (Inl ErrConnRefused)) (example_pod []) world0))
      = [Remove ''abc'', Remove ''abc.app'', Remove ''abc.init1'']
   \<and> timers (fire (example_eventer None None example_metagen (Inl ErrConnRefused)) 0
        (OnDelete (example_eventer None None example_metagen (Inl ErrConnRefused)) (example_pod []) world0)) = []"
  by (simp add: OnDelete_def fire_def emitStopped_def eventID_def example_pod_def world0_def)

section \<open>Emitting the containers of a pod\<close>

text \<open>The definitions that a run on the example inputs unfolds.\<close>

lemmas run_defs = generateContainerData_def example_externals_def all_running_def example_pod_def running_def
     put_annotations_def Delete.simps generateContainerData_body_def example_metagen_def GetValue.simps safemapstr_Put.simps
     checkForHints_def HasKey.simps container_k8sMapping_def container_processors_def add_fields_def Put.simps
     Sprintf_v_def decimal.simps eventID_def world0_def postMappingstoFleet_def Execute_def example_transport_def
     example_request_def HintsRequest_Validate_def HintsResponse_Validate_def

subsection \<open>Containers without a runtime identifier\<close>

lemma body_skips_without_ID:
  "ID c = [] \<Longrightarrow> generateContainerData_body x pod gen ns cl anns c w = (Return (), w)"
  by (simp add: generateContainerData_body_def)

lemma loop_filter_ID:
  "generateContainerData_loop x pod gen ns cl anns (filter (\<lambda>c. ID c \<noteq> []) cs) w
     = generateContainerData_loop x pod gen ns cl anns cs w"
  by (induction cs arbitrary: w) (auto simp: body_skips_without_ID split: prod.splits outcome.splits)

lemma post_ignores_containers:
  "postMappingstoFleet (x\<lparr>GetContainersInPod := f\<rparr>) m cl t w = postMappingstoFleet x m cl t w"
  by (simp add: postMappingstoFleet_def Let_def split: sum.splits)

lemma body_ignores_containers:
  "generateContainerData_body (x\<lparr>GetContainersInPod := f\<rparr>) pod gen ns cl anns c w
     = generateContainerData_body x pod gen ns cl anns c w"
  by (simp add: generateContainerData_body_def post_ignores_containers Let_def split: sum.splits mval.splits)

lemma loop_ignores_containers:
  "generateContainerData_loop (x\<lparr>GetContainersInPod := f\<rparr>) pod gen ns cl anns cs w
     = generateContainerData_loop x pod gen ns cl anns cs w"
  by (induction cs arbitrary: w) (simp_all add: body_ignores_containers split: prod.splits outcome.splits)

text \<open>
  C9. A round of the loop for a container whose runtime identifier is empty returns at
  once and leaves the world as it was: no registry call, no call of the dispatch helper,
  no request. So a run of \<open>generateContainerData\<close> is the run on the containers that
  have an identifier.
\<close>

theorem C9_no_ID_no_effect:
  "(ID c = [] \<longrightarrow> generateContainerData_body x pod gen ns cl anns c w = (Return (), w))
   \<and> generateContainerData x pod gen ns cl w
       = generateContainerData (x\<lparr>GetContainersInPod := \<lambda>pd. filter (\<lambda>c. ID c \<noteq> []) (GetContainersInPod x pd)\<rparr>)
           pod gen ns cl w"
  by (simp add: body_skips_without_ID generateContainerData_def loop_ignores_containers loop_filter_ID)

text \<open>
  On the example pod with its init container not yet running, the round for the init
  container changes nothing and the run registers the regular container only.
\<close>

theorem C9_no_ID_no_effect_witness:
  "ID (waiting example_init1) = []
   \<and> generateContainerData_body (example_externals init_waiting (Inr example_request)) (example_pod []) example_metagen [] 
         (example_transport (Inl ErrConnRefused)) [] (waiting example_init1) world0 = (Return (), world0)
   \<and> map call_id (registry (snd (generateContainerData (example_externals init_waiting (Inr example_request)) (example_pod [])
         example_metagen [] (example_transport (Inl ErrConnRefused)) world0))) = [''abc.app'']
   \<and> posted (snd (generateContainerData (example_externals init_waiting (Inr example_request)) (example_pod [])
         example_metagen [] (example_transport (Inl ErrConnRefused)) world0)) = []"
  using C9_no_ID_no_effect [of "waiting example_init1" "example_externals init_waiting (Inr example_request)" "example_pod []"
          example_metagen "[]" "example_transport (Inl ErrConnRefused)" "[]" world0]
  by (simp add: run_defs waiting_def init_waiting_def example_init1_def)

subsection \<open>The keys of the annotation tree\<close>

lemma cut_dot_None_iff: "(cut_dot key = None) = (CHR ''.'' \<notin> set key)"
  by (induction key) (auto split: option.splits)

lemma key_head_no_dot: "CHR ''.'' \<notin> set key \<Longrightarrow> key_head key = key"
  by (auto simp: key_head_def takeWhile_eq_all_conv)

lemma cut_dot_Some_head: "cut_dot key = Some (k, rest) \<Longrightarrow> key_head key = k"
  by (induction key arbitrary: k) (auto simp: key_head_def split: if_splits option.splits)

lemma key_head_has_no_dot: "CHR ''.'' \<notin> set (key_head key)"
  unfolding key_head_def by (metis (mono_tags, lifting) set_takeWhileD)

lemma safemapstr_Put_keys:
  assumes "\<forall>k \<in> fst ` set data. CHR ''.'' \<notin> set k"
  shows "fst ` set (safemapstr_Put data key v) = insert (key_head key) (fst ` set data)"
proof (cases "map_of data key")
  case (Some old)
  then have "key \<in> fst ` set data"
    by (metis map_of_eq_None_iff option.distinct(1))
  with assms have "key_head key = key"
    by (intro key_head_no_dot) blast
  with Some \<open>key \<in> fst ` set data\<close> show ?thesis
    by (cases old) (auto simp: safemapstr_Put.simps [of data key v] dom_update)
next
  case None
  show ?thesis
  proof (cases "cut_dot key")
    case cn: None
    then have "key_head key = key"
      by (simp add: cut_dot_None_iff key_head_no_dot)
    with None cn show ?thesis
      by (simp add: safemapstr_Put.simps [of data key v] dom_update)
  next
    case (Some kr)
    obtain k rest where kr: "kr = (k, rest)" by (cases kr)
    with Some have "key_head key = k"
      by (simp add: cut_dot_Some_head)
    with None Some kr show ?thesis
      by (simp add: safemapstr_Put.simps [of data key v] dom_update split: option.splits mval.splits)
  qed
qed

lemma fold_safemapstr_Put_keys:
  "\<forall>k \<in> fst ` set data. CHR ''.'' \<notin> set k \<Longrightarrow>
   fst ` set (foldl (\<lambda>annotations (k, v). safemapstr_Put annotations k (Str v)) data kvs)
     = key_head ` fst ` set kvs \<union> fst ` set data"
proof (induction kvs arbitrary: data)
  case Nil
  then show ?case by simp
next
  case (Cons kv kvs)
  obtain k v where kv: "kv = (k, v)" by (cases kv)
  have keys: "fst ` set (safemapstr_Put data k (Str v)) = insert (key_head k) (fst ` set data)"
    using Cons.prems by (rule safemapstr_Put_keys)
  then have "\<forall>k' \<in> fst ` set (safemapstr_Put data k (Str v)). CHR ''.'' \<notin> set k'"
    using Cons.prems key_head_has_no_dot by auto
  from Cons.IH [OF this] keys kv show ?case
    by auto
qed

lemma put_annotations_keys: "fst ` set (put_annotations pod) = key_head ` fst ` set (Annotations pod)"
  by (simp add: put_annotations_def fold_safemapstr_Put_keys)

lemma keys_delete: "fst ` set (AList.delete k al) = fst ` set al - {k}"
  using delete_keys [of k al] by (metis set_map set_removeAll)

lemma key_present: "(key \<in> fst ` set data) = (map_of data key \<noteq> None)"
  by (simp add: map_of_eq_None_iff)

lemma Delete_keys:
  "CHR ''.'' \<notin> set key \<Longrightarrow> fst ` set (Delete data key) = fst ` set data - {key}"
proof -
  assume "CHR ''.'' \<notin> set key"
  then have c: "cut_dot key = None"
    by (simp add: cut_dot_None_iff)
  show ?thesis
    by (cases "map_of data key") (simp_all add: Delete.simps [of data key] c keys_delete key_present)
qed

lemma HasKey_top:
  "CHR ''.'' \<notin> set key \<Longrightarrow> fst (HasKey data key) = (key \<in> fst ` set data)"
proof -
  assume "CHR ''.'' \<notin> set key"
  then have c: "cut_dot key = None"
    by (simp add: cut_dot_None_iff)
  show ?thesis
    by (cases "map_of data key") (simp_all add: HasKey.simps [of data key] c key_present)
qed

lemma key_head_eq_iff:
  assumes "CHR ''.'' \<notin> set s"
  shows "(key_head k = s) = (k = s \<or> (\<exists>rest. k = s @ CHR ''.'' # rest))"
proof
  assume h: "key_head k = s"
  have split: "k = s @ dropWhile (\<lambda>c. c \<noteq> CHR ''.'') k"
    using h takeWhile_dropWhile_id [of "\<lambda>c. c \<noteq> CHR ''.''" k] by (simp add: key_head_def)
  show "k = s \<or> (\<exists>rest. k = s @ CHR ''.'' # rest)"
  proof (cases "dropWhile (\<lambda>c. c \<noteq> CHR ''.'') k")
    case Nil
    with split show ?thesis by simp
  next
    case (Cons c rest)
    then have "c = CHR ''.''"
      using hd_dropWhile [of "\<lambda>c. c \<noteq> CHR ''.''" k] by auto
    with Cons split show ?thesis by auto
  qed
next
  assume "k = s \<or> (\<exists>rest. k = s @ CHR ''.'' # rest)"
  then show "key_head k = s"
  proof
    assume "k = s"
    with assms show ?thesis
      by (auto simp: key_head_def takeWhile_eq_all_conv)
  next
    assume "\<exists>rest. k = s @ CHR ''.'' # rest"
    then obtain rest where "k = s @ CHR ''.'' # rest" ..
    moreover have "takeWhile (\<lambda>c. c \<noteq> CHR ''.'') (s @ CHR ''.'' # rest) = s"
      using assms by (subst takeWhile_append2) auto
    ultimately show ?thesis
      by (simp add: key_head_def)
  qed
qed

lemma in_image_eq: "(s \<in> f ` S) = (\<exists>k \<in> S. f k = s)"
  by auto

lemma hinted_iff:
  "hinted pod = (''elastic-co-hints/package'' \<in> key_head ` fst ` set (Annotations pod))"
  by (simp add: hinted_def checkForHints_def HasKey_top Delete_keys put_annotations_keys)

lemma hinted_keys:
  "hinted pod =
     (\<exists>k \<in> fst ` set (Annotations pod).
        k = ''elastic-co-hints/package'' \<or> (\<exists>rest. k = ''elastic-co-hints/package.'' @ rest))"
  by (simp add: hinted_iff in_image_eq key_head_eq_iff)

subsection \<open>The hint gate\<close>

lemma postMappingstoFleet_effects:
  "postMappingstoFleet x m cl t w = (r, w') \<Longrightarrow>
     registry w' = registry w \<and> posted w' = posted w @ [(m, t)] \<and> timers w' = timers w \<and> started w' = started w"
  by (auto simp: postMappingstoFleet_def Let_def split: sum.splits prod.splits outcome.splits)

lemma body_not_hinted:
  assumes "\<not> checkForHints anns"
  shows "generateContainerData_body x pod gen ns cl anns c w =
     (if ID c = [] then (Return (), w)
      else case GetValue (gen pod [(''container.name'', Name (Spec c))]) ''kubernetes'' of
             Inl err \<Rightarrow> (Return (), w)
           | Inr (Str s) \<Rightarrow> (Panic ''interface conversion: interface {} is string, not mapstr.M'', w)
           | Inr (Tree t) \<Rightarrow>
               (Return (), w\<lparr>registry := registry w @
                  [AddOrUpdate (UID pod @ ''.'' @ Name (Spec c)) (ContainerPriority x)
                     (container_k8sMapping t ns anns c)
                     (container_processors (gen pod [(''container.name'', Name (Spec c))]) c)]\<rparr>))"
  using assms
  by (simp add: generateContainerData_body_def Let_def eventID_def split: sum.splits mval.splits)

lemma body_hinted:
  assumes "checkForHints anns"
  shows "generateContainerData_body x pod gen ns cl anns c w =
     (if ID c = [] then (Return (), w)
      else case GetValue (gen pod [(''container.name'', Name (Spec c))]) ''kubernetes'' of
             Inl err \<Rightarrow> (Return (), w)
           | Inr (Str s) \<Rightarrow> (Panic ''interface conversion: interface {} is string, not mapstr.M'', w)
           | Inr (Tree t) \<Rightarrow>
               (case postMappingstoFleet x (container_k8sMapping t ns anns c) cl ''Start'' w of
                  (Panic m, w') \<Rightarrow> (Panic m, w')
                | (Return r, w') \<Rightarrow> (Return (), w')))"
  using assms
  by (simp add: generateContainerData_body_def Let_def split: sum.splits mval.splits)

lemma loop_not_hinted:
  assumes "\<not> checkForHints anns"
  shows "generateContainerData_loop x pod gen ns cl anns cs w = (r, w') \<Longrightarrow>
     posted w' = posted w \<and> sent w' = sent w
     \<and> (r = Return () \<longrightarrow>
          registry w' = registry w @
            map (\<lambda>c. AddOrUpdate (UID pod @ ''.'' @ Name (Spec c)) (ContainerPriority x)
                       (container_k8sMapping (case kubernetes_of gen pod c of Some t \<Rightarrow> t | None \<Rightarrow> []) ns anns c)
                       (container_processors (gen pod [(''container.name'', Name (Spec c))]) c))
              (filter (emitted gen pod) cs))"
proof (induction cs arbitrary: w)
  case Nil
  then show ?case by simp
next
  case (Cons c cs)
  show ?case
  proof (cases "generateContainerData_body x pod gen ns cl anns c w")
    case (Pair r1 w1)
    show ?thesis
    proof (cases r1)
      case (Panic m)
      with Pair Cons.prems show ?thesis
        by (auto simp: body_not_hinted [OF assms] split: if_splits sum.splits mval.splits)
    next
      case (Return u)
      with Pair Cons.prems have rest: "generateContainerData_loop x pod gen ns cl anns cs w1 = (r, w')"
        by simp
      from Pair Return show ?thesis
        using Cons.IH [OF rest]
        by (auto simp: body_not_hinted [OF assms] emitted_def kubernetes_of_def
                 split: if_splits sum.splits mval.splits)
    qed
  qed
qed

lemma loop_hinted:
  assumes "checkForHints anns"
  shows "generateContainerData_loop x pod gen ns cl anns cs w = (r, w') \<Longrightarrow>
     registry w' = registry w
     \<and> (r = Return () \<longrightarrow>
          posted w' = posted w @
            map (\<lambda>c. (container_k8sMapping (case kubernetes_of gen pod c of Some t \<Rightarrow> t | None \<Rightarrow> []) ns anns c, ''Start''))
              (filter (emitted gen pod) cs))"
proof (induction cs arbitrary: w)
  case Nil
  then show ?case by simp
next
  case (Cons c cs)
  show ?case
  proof (cases "generateContainerData_body x pod gen ns cl anns c w")
    case (Pair r1 w1)
    show ?thesis
    proof (cases r1)
      case (Panic m)
      with Pair Cons.prems show ?thesis
        by (auto simp: body_hinted [OF assms] split: if_splits sum.splits mval.splits prod.splits outcome.splits
                 dest: postMappingstoFleet_effects)
    next
      case (Return u)
      with Pair Cons.prems have rest: "generateContainerData_loop x pod gen ns cl anns cs w1 = (r, w')"
        by simp
      from Pair Return show ?thesis
        using Cons.IH [OF rest]
        by (auto simp: body_hinted [OF assms] emitted_def kubernetes_of_def
                 split: if_splits sum.splits mval.splits prod.splits outcome.splits
                 dest: postMappingstoFleet_effects)
    qed
  qed
qed

text \<open>
  C1, as the code has it. The gate is evaluated on the tree that \<^verbatim>\<open>safemapstr.Put\<close>
  builds from the pod's annotations, in which a dotted key is filed under its part before
  the first dot. So a pod is dispatched to the hints transport exactly when one of its
  annotation keys is \<^verbatim>\<open>elastic-co-hints/package\<close> or begins with that and a dot. The
  gate depends on the pod only, so it is the same for every container. For a pod that
  passes the gate no registry call is made, and a run that returns has called the
  dispatch helper once for each emitted container, in order. For a pod that does not,
  nothing is dispatched or sent, and a run that returns has made exactly one
  \<open>AddOrUpdate\<close> call for each emitted container, in order, with the identity pod UID,
  dot, container spec name. A container is emitted when its runtime identifier is
  non-empty and the generator yields a \<open>kubernetes\<close> tree for it.
\<close>

theorem C1_hint_gate:
  "hinted pod =
     (\<exists>k \<in> fst ` set (Annotations pod).
        k = ''elastic-co-hints/package'' \<or> (\<exists>rest. k = ''elastic-co-hints/package.'' @ rest))
   \<and> (hinted pod \<longrightarrow>
        registry (snd (generateContainerData x pod gen ns cl w)) = registry w
        \<and> (fst (generateContainerData x pod gen ns cl w) = Return () \<longrightarrow>
             posted (snd (generateContainerData x pod gen ns cl w)) =
               posted w @ map (\<lambda>c. (mapping_of gen pod ns c, ''Start''))
                            (filter (emitted gen pod) (GetContainersInPod x pod))))
   \<and> (\<not> hinted pod \<longrightarrow>
        posted (snd (generateContainerData x pod gen ns cl w)) = posted w
        \<and> sent (snd (generateContainerData x pod gen ns cl w)) = sent w
        \<and> (fst (generateContainerData x pod gen ns cl w) = Return () \<longrightarrow>
             registry (snd (generateContainerData x pod gen ns cl w)) =
               registry w @ map (registry_call_of x gen pod ns)
                              (filter (emitted gen pod) (GetContainersInPod x pod))))"
proof -
  obtain r w' where run: "generateContainerData x pod gen ns cl w = (r, w')"
    by (cases "generateContainerData x pod gen ns cl w")
  then have loop: "generateContainerData_loop x pod gen ns cl (Delete (put_annotations pod) ''kubectl'')
                     (GetContainersInPod x pod) w = (r, w')"
    by (simp add: generateContainerData_def)
  have a: "hinted pod \<Longrightarrow> registry w' = registry w
     \<and> (r = Return () \<longrightarrow> posted w' = posted w @ map (\<lambda>c. (mapping_of gen pod ns c, ''Start''))
                            (filter (emitted gen pod) (GetContainersInPod x pod)))"
    using loop_hinted [OF _ loop] by (simp add: hinted_def mapping_of_def)
  have b: "\<not> hinted pod \<Longrightarrow> posted w' = posted w \<and> sent w' = sent w
     \<and> (r = Return () \<longrightarrow> registry w' = registry w @ map (registry_call_of x gen pod ns)
                              (filter (emitted gen pod) (GetContainersInPod x pod)))"
    using loop_not_hinted [OF _ loop] by (simp add: hinted_def mapping_of_def registry_call_of_def)
  from a b hinted_keys [of pod] show ?thesis
    unfolding run fst_conv snd_conv by blast
qed

text \<open>
  The example pod with the annotation \<^verbatim>\<open>elastic-co-hints/package\<close> is dispatched twice
  and never registered; with an unrelated annotation both containers are registered
  and nothing is dispatched.
\<close>

theorem C1_hint_gate_witness:
  "hinted (example_pod [(''elastic-co-hints/package'', ''redis'')])
   \<and> fst (generateContainerData (example_externals all_running (Inr example_request)) (example_pod [(''elastic-co-hints/package'', ''redis'')])
        example_metagen [] (example_transport (Inr \<lparr>StatusCode = 200, Body = ''created''\<rparr>)) world0) = Return ()
   \<and> registry (snd (generateContainerData (example_externals all_running (Inr example_request)) (example_pod [(''elastic-co-hints/package'', ''redis'')])
        example_metagen [] (example_transport (Inr \<lparr>StatusCode = 200, Body = ''created''\<rparr>)) world0)) = []
   \<and> map snd (posted (snd (generateContainerData (example_externals all_running (Inr example_request)) (example_pod [(''elastic-co-hints/package'', ''redis'')])
        example_metagen [] (example_transport (Inr \<lparr>StatusCode = 200, Body = ''created''\<rparr>)) world0))) = [''Start'', ''Start'']
   \<and> \<not> hinted (example_pod [(''app'', ''redis'')])
   \<and> fst (generateContainerData (example_externals all_running (Inr example_request)) (example_pod [(''app'', ''redis'')])
        example_metagen [] (example_transport (Inr \<lparr>StatusCode = 200, Body = ''created''\<rparr>)) world0) = Return ()
   \<and> map call_id (registry (snd (generateContainerData (example_externals all_running (Inr example_request)) (example_pod [(''app'', ''redis'')])
        example_metagen [] (example_transport (Inr \<lparr>StatusCode = 200, Body = ''created''\<rparr>)) world0)))
       = [''abc.app'', ''abc.init1'']
   \<and> posted (snd (generateContainerData (example_externals all_running (Inr example_request)) (example_pod [(''app'', ''redis'')])
        example_metagen [] (example_transport (Inr \<lparr>StatusCode = 200, Body = ''created''\<rparr>)) world0)) = []"
proof -
  have dispatched:
    "generateContainerData (example_externals all_running (Inr example_request)) (example_pod [(''elastic-co-hints/package'', ''redis'')])
        example_metagen [] (example_transport (Inr \<lparr>StatusCode = 200, Body = ''created''\<rparr>)) world0
     = (Return (), world0\<lparr>posted :=
          [([(''pod'', Tree [(''uid'', Str ''abc'')]),
             (''annotations'', Tree [(''elastic-co-hints/package'', Str ''redis'')]),
             (''container'', Tree [(''id'', Str ''id-app''), (''name'', Str ''app''), (''image'', Str ''redis:7''),
                (''runtime'', Str ''containerd''), (''port'', Str ''6379''), (''port_name'', Str ''redis'')])], ''Start''),
           ([(''pod'', Tree [(''uid'', Str ''abc'')]),
             (''annotations'', Tree [(''elastic-co-hints/package'', Str ''redis'')]),
             (''container'', Tree [(''id'', Str ''id-init1''), (''name'', Str ''init1''), (''image'', Str ''busybox''),
                (''runtime'', Str ''containerd'')])], ''Start'')],
          sent := [(''POST'', ''/api/fleet/agents/agent-1/hints'', ''Start''),
                   (''POST'', ''/api/fleet/agents/agent-1/hints'', ''Start'')]\<rparr>)"
    by (simp add: run_defs)
  obtain registered where registered:
    "generateContainerData (example_externals all_running (Inr example_request)) (example_pod [(''app'', ''redis'')])
        example_metagen [] (example_transport (Inr \<lparr>StatusCode = 200, Body = ''created''\<rparr>)) world0
     = (Return (), world0\<lparr>registry := registered\<rparr>)"
    and ids: "map call_id registered = [''abc.app'', ''abc.init1'']"
    by (simp add: run_defs)
  have gate: "hinted (example_pod [(''elastic-co-hints/package'', ''redis'')])"
    "\<not> hinted (example_pod [(''app'', ''redis'')])"
    by (simp_all add: run_defs hinted_def)
  have empty: "registry world0 = []" "posted world0 = []"
    by (simp_all add: world0_def)
  have kept: "registry (snd (generateContainerData (example_externals all_running (Inr example_request))
        (example_pod [(''elastic-co-hints/package'', ''redis'')])
        example_metagen [] (example_transport (Inr \<lparr>StatusCode = 200, Body = ''created''\<rparr>)) world0)) = registry world0"
    using gate(1)
      C1_hint_gate [of "example_pod [(''elastic-co-hints/package'', ''redis'')]" "example_externals all_running (Inr example_request)"
        example_metagen "[]" "example_transport (Inr \<lparr>StatusCode = 200, Body = ''created''\<rparr>)" world0]
    by blast
  have quiet: "posted (snd (generateContainerData (example_externals all_running (Inr example_request)) (example_pod [(''app'', ''redis'')])
        example_metagen [] (example_transport (Inr \<lparr>StatusCode = 200, Body = ''created''\<rparr>)) world0)) = posted world0"
    using gate(2)
      C1_hint_gate [of "example_pod [(''app'', ''redis'')]" "example_externals all_running (Inr example_request)"
        example_metagen "[]" "example_transport (Inr \<lparr>StatusCode = 200, Body = ''created''\<rparr>)" world0]
    by blast
  from kept quiet show ?thesis
    by (simp add: dispatched registered ids gate empty)
qed

text \<open>
  C1 as stated fails: the only annotation of this pod is
  \<^verbatim>\<open>elastic-co-hints/package.name\<close>, so its annotations do not contain the sentinel
  key. Still both running containers are handed to the dispatch helper and the registry
  receives no call. (The nested annotation does not fit the request's string map, so
  the helper stops at decoding and nothing is sent either.)
\<close>

theorem C1_dotted_key_counterexample:
  "''elastic-co-hints/package'' \<notin> fst ` set (Annotations (example_pod [(''elastic-co-hints/package.name'', ''redis'')]))
   \<and> generateContainerData
        (example_externals all_running
           (Inl (ErrOther ''json: cannot unmarshal object into Go struct field of type string'')))
        (example_pod [(''elastic-co-hints/package.name'', ''redis'')])
        example_metagen [] (example_transport (Inr \<lparr>StatusCode = 200, Body = ''created''\<rparr>)) world0
      = (Return (),
         world0\<lparr>posted :=
           [([(''pod'', Tree [(''uid'', Str ''abc'')]),
              (''annotations'', Tree [(''elastic-co-hints/package'', Tree [(''name'', Str ''redis'')])]),
              (''container'', Tree [(''id'', Str ''id-app''), (''name'', Str ''app''), (''image'', Str ''redis:7''),
                 (''runtime'', Str ''containerd''), (''port'', Str ''6379''), (''port_name'', Str ''redis'')])], ''Start''),
            ([(''pod'', Tree [(''uid'', Str ''abc'')]),
              (''annotations'', Tree [(''elastic-co-hints/package'', Tree [(''name'', Str ''redis'')])]),
              (''container'', Tree [(''id'', Str ''id-init1''), (''name'', Str ''init1''), (''image'', Str ''busybox''),
                 (''runtime'', Str ''containerd'')])], ''Start'')]\<rparr>)"
  by (simp add: run_defs)

subsection \<open>Ports\<close>

lemma Put_no_dot: "cut_dot key = None \<Longrightarrow> Put data key v = AList.update key v data"
  by (cases "map_of data key") (simp_all add: Put.simps [of data key v])

lemma update_twice:
  "k1 \<noteq> k2 \<Longrightarrow>
   AList.update k2 b' (AList.update k1 a' (AList.update k2 b (AList.update k1 a m)))
     = AList.update k2 b' (AList.update k1 a' m)"
  by (induction m) auto

lemma put_ports_last:
  "ports \<noteq> [] \<Longrightarrow>
   put_ports ports m =
     AList.update ''port_name'' (Str (Port_Name (last ports)))
       (AList.update ''port'' (Str (Sprintf_v (Port_ContainerPort (last ports)))) m)"
proof (induction ports arbitrary: m)
  case Nil
  then show ?case by simp
next
  case (Cons port ports)
  show ?case
  proof (cases "ports = []")
    case True
    then show ?thesis by (simp add: Put_no_dot)
  next
    case False
    with Cons.IH show ?thesis
      by (simp add: Put_no_dot update_twice)
  qed
qed

text \<open>
  C10. For a container that is emitted, the mapping that is dispatched (when the gate
  holds) or registered (when it does not) has under \<open>container\<close> the identifier, name,
  image and runtime, followed by the number and the name of the last declared port and
  of no other port; without declared ports it has no port fields.
\<close>

theorem C10_last_port_wins:
  assumes "ID c \<noteq> []"
    and "GetValue (gen pod [(''container.name'', Name (Spec c))]) ''kubernetes'' = Inr (Tree t)"
  shows "(if checkForHints anns
          then posted (snd (generateContainerData_body x pod gen ns cl anns c w))
                 = posted w @ [(container_k8sMapping t ns anns c, ''Start'')]
          else registry (snd (generateContainerData_body x pod gen ns cl anns c w))
                 = registry w @ [AddOrUpdate (UID pod @ ''.'' @ Name (Spec c)) (ContainerPriority x)
                                   (container_k8sMapping t ns anns c)
                                   (container_processors (gen pod [(''container.name'', Name (Spec c))]) c)])
     \<and> map_of (container_k8sMapping t ns anns c) ''container'' =
         Some (Tree ([(''id'', Str (ID c)), (''name'', Str (Name (Spec c))),
                      (''image'', Str (Image (Spec c))), (''runtime'', Str (Runtime c))]
                     @ (if Ports (Spec c) = [] then []
                        else [(''port'', Str (Sprintf_v (Port_ContainerPort (last (Ports (Spec c)))))),
                              (''port_name'', Str (Port_Name (last (Ports (Spec c)))))])))"
proof -
  have published: "checkForHints anns \<Longrightarrow>
      posted (snd (generateContainerData_body x pod gen ns cl anns c w))
        = posted w @ [(container_k8sMapping t ns anns c, ''Start'')]"
    using assms
    by (auto simp: body_hinted split: prod.splits outcome.splits dest: postMappingstoFleet_effects)
  have registered: "\<not> checkForHints anns \<Longrightarrow>
      registry (snd (generateContainerData_body x pod gen ns cl anns c w))
        = registry w @ [AddOrUpdate (UID pod @ ''.'' @ Name (Spec c)) (ContainerPriority x)
                          (container_k8sMapping t ns anns c)
                          (container_processors (gen pod [(''container.name'', Name (Spec c))]) c)]"
    using assms by (simp add: body_not_hinted)
  have entry: "map_of (container_k8sMapping t ns anns c) ''container'' =
         Some (Tree ([(''id'', Str (ID c)), (''name'', Str (Name (Spec c))),
                      (''image'', Str (Image (Spec c))), (''runtime'', Str (Runtime c))]
                     @ (if Ports (Spec c) = [] then []
                        else [(''port'', Str (Sprintf_v (Port_ContainerPort (last (Ports (Spec c)))))),
                              (''port_name'', Str (Port_Name (last (Ports (Spec c)))))])))"
    by (simp add: container_k8sMapping_def Let_def update_conv' put_ports_last)
  from published registered entry show ?thesis
    by simp
qed

text \<open>
  The example container "app" declares the ports metrics (9121) and redis (6379) and is
  registered with port 6379 and port name redis; "init1" declares none.
\<close>

theorem C10_last_port_wins_witness:
  "ID (running example_app) \<noteq> []
   \<and> GetValue (example_metagen (example_pod []) [(''container.name'', Name (Spec (running example_app)))]) ''kubernetes''
       = Inr (Tree [(''pod'', Tree [(''uid'', Str ''abc'')])])
   \<and> map (map Port_Name) [Ports example_app, Ports example_init1] = [[''metrics'', ''redis''], []]
   \<and> map call_id (registry (snd (generateContainerData_body (example_externals all_running (Inr example_request)) (example_pod [])
         example_metagen [] (example_transport (Inl ErrConnRefused)) [] (running example_app) world0))) = [''abc.app'']
   \<and> map_of (container_k8sMapping [(''pod'', Tree [(''uid'', Str ''abc'')])] [] [] (running example_app)) ''container''
       = Some (Tree [(''id'', Str ''id-app''), (''name'', Str ''app''), (''image'', Str ''redis:7''),
                     (''runtime'', Str ''containerd''), (''port'', Str ''6379''), (''port_name'', Str ''redis'')])
   \<and> map_of (container_k8sMapping [(''pod'', Tree [(''uid'', Str ''abc'')])] [] [] (running example_init1)) ''container''
       = Some (Tree [(''id'', Str ''id-init1''), (''name'', Str ''init1''), (''image'', Str ''busybox''),
                     (''runtime'', Str ''containerd'')])"
proof -
  have i: "ID (running c) \<noteq> []" for c
    by (simp add: running_def)
  have g: "GetValue (example_metagen (example_pod []) [(''container.name'', Name (Spec (running c)))]) ''kubernetes''
       = Inr (Tree [(''pod'', Tree [(''uid'', Str ''abc'')])])" for c
    by (simp add: example_metagen_def GetValue.simps example_pod_def)
  show ?thesis
    using C10_last_port_wins [where c = "running example_app" and gen = example_metagen and pod = "example_pod []"
            and anns = "[]" and x = "example_externals all_running (Inr example_request)" and ns = "[]"
            and cl = "example_transport (Inl ErrConnRefused)" and w = world0, OF i g]
          C10_last_port_wins [where c = "running example_init1" and gen = example_metagen and pod = "example_pod []"
            and anns = "[]" and x = "example_externals all_running (Inr example_request)" and ns = "[]"
            and cl = "example_transport (Inl ErrConnRefused)" and w = world0, OF i g]
    by (simp add: run_defs example_app_def example_init1_def)
qed

section \<open>Where the code misses its own intent\<close>

text \<open>
  C3 at a failing input. The generator's result has no \<open>kubernetes\<close> entry. The
  container path skips every container and returns, as claimed. The pod path does not:
  \<open>generatePodData\<close> returns the empty \<open>providerData\<close>, and \<open>emitRunning\<close> then writes
  the scope into its nil map and panics, before any container is looked at.
\<close>

theorem C3_pod_generation_failure_panics:
  "GetValue (failing_metagen (example_pod []) []) ''kubernetes'' = Inl ErrKeyNotFound
   \<and> emitRunning (example_externals all_running (Inr example_request)) (example_eventer None None failing_metagen (Inl ErrConnRefused))
        (example_pod []) world0 = (Panic ''assignment to entry in nil map'', world0)
   \<and> generateContainerData (example_externals all_running (Inr example_request)) (example_pod []) failing_metagen []
        (example_transport (Inl ErrConnRefused)) world0 = (Return (), world0)"
  by (simp add: emitRunning_def generatePodData_def failing_metagen_def example_eventer_def run_defs)

text \<open>
  C5 at a failing input. The server answers 429, so \<open>Execute\<close> returns the rate-limited
  error; \<open>postMappingstoFleet\<close>, called with the same client and request, returns no
  error at all to the loop.
\<close>

theorem C5_execute_error_dropped:
  "Execute \<lparr>client = example_transport (Inr \<lparr>StatusCode = 429, Body = []\<rparr>), info_AgentID = ''agent-1''\<rparr>
       (example_request\<lparr>Type := ''Start''\<rparr>) []
     = (Return (Inl ErrTooManyRequests), [(''POST'', ''/api/fleet/agents/agent-1/hints'', ''Start'')])
   \<and> postMappingstoFleet (example_externals all_running (Inr example_request)) [] (example_transport (Inr \<lparr>StatusCode = 429, Body = []\<rparr>))
        ''Start'' world0
     = (Return (None, None),
        world0\<lparr>posted := [([], ''Start'')], sent := [(''POST'', ''/api/fleet/agents/agent-1/hints'', ''Start'')]\<rparr>)"
  by (simp add: run_defs)

text \<open>
  C6 at a failing input. The sender fails with a URL error. With the standard
  \<^verbatim>\<open>errors.As\<close> the nil target makes \<open>Execute\<close> panic; and whatever \<^verbatim>\<open>errors.As\<close>
  does, \<open>Execute\<close> never returns the inner cause, since \<^verbatim>\<open>et\<close> is nil when
  \<^verbatim>\<open>et.Err\<close> is read. A network-operation error panics in the same way instead of
  giving the connection-refused sentinel.
\<close>

theorem C6_nil_target_panics:
  "fst (Execute (example_cmd (Inl (UrlError ''Post'' ''fleet:8220/api/fleet/agents/agent-1/hints''
          (ErrOther ''unsupported protocol scheme'')))) example_request [])
     = Panic ''errors: target must be a non-nil pointer''
   \<and> (\<forall>as. fst (Execute \<lparr>client = (example_transport (Inl (UrlError ''Post'' ''fleet:8220/api/fleet/agents/agent-1/hints''
          (ErrOther ''unsupported protocol scheme''))))\<lparr>errors_As := as\<rparr>, info_AgentID = ''agent-1''\<rparr> example_request [])
        \<noteq> Return (Inl (ErrOther ''unsupported protocol scheme'')))
   \<and> fst (Execute (example_cmd (Inl (NetOpError ''dial'' (ErrOther ''connect: connection refused'')))) example_request [])
     = Panic ''errors: target must be a non-nil pointer''"
  by (simp add: Execute_def example_cmd_def example_transport_def example_request_def HintsRequest_Validate_def
        std_errors_As_def Let_def split: outcome.split bool.split)

end
